theory Spec2Isabelle
  imports Main "HOL-Library.Word"
begin

section \<open>Python values and exceptions\<close>

text \<open>
  The wrapper is Python: values are dynamically typed and every failure is an exception.
  Exceptions are modelled as values of \<open>error\<close>; a function that can raise returns
  \<open>error + 'a\<close> with \<open>Inl\<close> for the exception.
\<close>

datatype error =
    AssertionError
  | ValueError
  | KeyError
  | TypeError
  | AttributeError string
  | RuntimeError string
  | PdfiumError string

datatype pyval =
    PyNone
  | PyBool bool
  | PyInt int
  | PyStr string
  | PyList "pyval list"
  | PyTuple "pyval list"
  | PyFunction string

text \<open>\<open>isinstance(c, int)\<close>: \<open>bool\<close> is a subclass of \<open>int\<close> in Python.\<close>

fun isinstance_int :: "pyval \<Rightarrow> bool" where
  "isinstance_int (PyInt i) = True"
| "isinstance_int (PyBool b) = True"
| "isinstance_int v = False"

text \<open>The integer an int-like value stands for (\<open>True\<close> is 1, \<open>False\<close> is 0).\<close>

fun int_value :: "pyval \<Rightarrow> int" where
  "int_value (PyInt i) = i"
| "int_value (PyBool b) = (if b then 1 else 0)"
| "int_value v = 0"

section \<open>utilities.py\<close>

subsection \<open>The builtins \<open>hex\<close> and \<open>int(s, 0)\<close>\<close>

definition hex_char :: "nat \<Rightarrow> char" where
  "hex_char d = ''0123456789abcdef'' ! d"

fun hex_nat :: "nat \<Rightarrow> string" where
  "hex_nat n = (if n < 16 then [hex_char n] else hex_nat (n div 16) @ [hex_char (n mod 16)])"

declare hex_nat.simps [simp del]

text \<open>\<open>hex(c)\<close>: lower-case digits after \<open>0x\<close>, a leading minus sign for a negative number.\<close>

definition py_hex :: "int \<Rightarrow> string" where
  "py_hex i = (if i < 0 then ''-0x'' @ hex_nat (nat (- i)) else ''0x'' @ hex_nat (nat i))"

definition digit_val :: "char \<Rightarrow> nat option" where
  "digit_val ch =
     (let n = (of_char ch :: nat) in
      if 48 \<le> n \<and> n \<le> 57 then Some (n - 48)
      else if 97 \<le> n \<and> n \<le> 122 then Some (n - 87)
      else if 65 \<le> n \<and> n \<le> 90 then Some (n - 55)
      else None)"

fun parse_digits :: "nat \<Rightarrow> string \<Rightarrow> nat \<Rightarrow> nat option" where
  "parse_digits base [] acc = Some acc"
| "parse_digits base (ch # cs) acc =
     (case digit_val ch of
        None \<Rightarrow> None
      | Some d \<Rightarrow> if d < base then parse_digits base cs (acc * base + d) else None)"

text \<open>
  \<open>int(s, 0)\<close>: the base is read off the prefix of the literal. Only unsigned literals
  without underscores or surrounding blanks are modelled; \<open>colour_as_hex\<close> passes no other.
\<close>

definition py_int_base0 :: "string \<Rightarrow> error + int" where
  "py_int_base0 s =
     (let p = take 2 s;
          (base, body) =
            (if p = ''0x'' \<or> p = ''0X'' then (16, drop 2 s)
             else if p = ''0o'' \<or> p = ''0O'' then (8, drop 2 s)
             else if p = ''0b'' \<or> p = ''0B'' then (2, drop 2 s)
             else (10, s))
      in if body = [] then Inl ValueError
         else if base = 10 \<and> hd body = CHR ''0'' \<and> filter (\<lambda>c. c \<noteq> CHR ''0'') body \<noteq> []
           then Inl ValueError
         else case parse_digits base body 0 of
                None \<Rightarrow> Inl ValueError
              | Some n \<Rightarrow> Inr (int n))"

subsection \<open>\<open>_hex_digits\<close> and \<open>colour_as_hex\<close>\<close>

definition hex_digits :: "pyval \<Rightarrow> string" where
  "hex_digits c =
     (let hxc = drop 2 (py_hex (int_value c))
      in if length hxc = 1 then ''0'' @ hxc else hxc)"

text \<open>The first loop of \<open>colour_as_hex\<close>: two assertions per colour, in order.\<close>

fun assert_colours :: "pyval list \<Rightarrow> error + unit" where
  "assert_colours [] = Inr ()"
| "assert_colours (c # cs) =
     (if \<not> isinstance_int c then Inl AssertionError
      else if \<not> (0 \<le> int_value c \<and> int_value c \<le> 255) then Inl AssertionError
      else assert_colours cs)"

definition colour_as_hex :: "pyval \<Rightarrow> pyval \<Rightarrow> pyval \<Rightarrow> pyval \<Rightarrow> error + int" where
  "colour_as_hex r g b a =
     (let colours = [a, r, g, b] in
      case assert_colours colours of
        Inl e \<Rightarrow> Inl e
      | Inr _ \<Rightarrow>
          (let hxc_str = foldl (\<lambda>s c. s @ hex_digits c) ''0x'' colours
           in py_int_base0 hxc_str))"

text \<open>The call with the default \<open>a=255\<close>.\<close>

definition colour_as_hex_default :: "pyval \<Rightarrow> pyval \<Rightarrow> pyval \<Rightarrow> error + int" where
  "colour_as_hex_default r g b = colour_as_hex r g b (PyInt 255)"

text \<open>An integer from 0 to 255, the argument \<open>colour_as_hex\<close> documents.\<close>

definition is_colour :: "pyval \<Rightarrow> bool" where
  "is_colour c = (isinstance_int c \<and> 0 \<le> int_value c \<and> int_value c \<le> 255)"

section \<open>version.py\<close>

subsection \<open>Builtins on values\<close>

fun truthy :: "pyval \<Rightarrow> bool" where
  "truthy PyNone = False"
| "truthy (PyBool b) = b"
| "truthy (PyInt i) = (i \<noteq> 0)"
| "truthy (PyStr s) = (s \<noteq> [])"
| "truthy (PyList xs) = (xs \<noteq> [])"
| "truthy (PyTuple xs) = (xs \<noteq> [])"
| "truthy (PyFunction f) = True"

definition dec_char :: "nat \<Rightarrow> char" where
  "dec_char d = ''0123456789'' ! d"

fun dec_nat :: "nat \<Rightarrow> string" where
  "dec_nat n = (if n < 10 then [dec_char n] else dec_nat (n div 10) @ [dec_char (n mod 10)])"

declare dec_nat.simps [simp del]

definition str_int :: "int \<Rightarrow> string" where
  "str_int i = (if i < 0 then ''-'' @ dec_nat (nat (- i)) else dec_nat (nat i))"

text \<open>\<open>sep.join(xs)\<close> for a list of strings.\<close>

fun join :: "string \<Rightarrow> string list \<Rightarrow> string" where
  "join sep [] = []"
| "join sep [x] = x"
| "join sep (x # y # ys) = x @ sep @ join sep (y # ys)"

text \<open>
  \<open>repr\<close> and \<open>str\<close>. Strings inside containers are put between single quotes without
  escapes, and a function is shown without its address; the version classes apply \<open>str\<close> to
  numbers, strings and \<open>None\<close>.
\<close>

fun py_repr :: "pyval \<Rightarrow> string" where
  "py_repr PyNone = ''None''"
| "py_repr (PyBool b) = (if b then ''True'' else ''False'')"
| "py_repr (PyInt i) = str_int i"
| "py_repr (PyStr s) = [CHR 0x27] @ s @ [CHR 0x27]"
| "py_repr (PyList xs) = ''['' @ join '', '' (map py_repr xs) @ '']''"
| "py_repr (PyTuple xs) =
     (if length xs = 1 then ''('' @ join '', '' (map py_repr xs) @ '',)''
      else ''('' @ join '', '' (map py_repr xs) @ '')'')"
| "py_repr (PyFunction f) = ''<function '' @ f @ ''>''"

definition py_str :: "pyval \<Rightarrow> string" where
  "py_str v = (case v of PyStr s \<Rightarrow> s | _ \<Rightarrow> py_repr v)"

text \<open>\<open>v > 0\<close>: defined for numbers, a \<open>TypeError\<close> for the other values.\<close>

definition gt_zero :: "pyval \<Rightarrow> error + bool" where
  "gt_zero v = (if isinstance_int v then Inr (int_value v > 0) else Inl TypeError)"

text \<open>Iterating over a value, as \<open>tuple(v)\<close> and \<open>for x in v\<close> do.\<close>

definition py_iter :: "pyval \<Rightarrow> error + pyval list" where
  "py_iter v =
     (case v of
        PyList xs \<Rightarrow> Inr xs
      | PyTuple xs \<Rightarrow> Inr xs
      | PyStr s \<Rightarrow> Inr (map (\<lambda>c. PyStr [c]) s)
      | _ \<Rightarrow> Inl TypeError)"

text \<open>\<open>sep.join(v)\<close>: every item has to be a string.\<close>

definition str_join :: "string \<Rightarrow> pyval \<Rightarrow> error + string" where
  "str_join sep v =
     (case py_iter v of
        Inl e \<Rightarrow> Inl e
      | Inr xs \<Rightarrow>
          if list_all (\<lambda>x. case x of PyStr s \<Rightarrow> True | _ \<Rightarrow> False) xs
          then Inr (join sep (map py_str xs))
          else Inl TypeError)"

definition bind_sum :: "error + 'a \<Rightarrow> ('a \<Rightarrow> error + 'b) \<Rightarrow> error + 'b" where
  "bind_sum m f = (case m of Inl e \<Rightarrow> Inl e | Inr x \<Rightarrow> f x)"

subsection \<open>Instances and attribute access\<close>

text \<open>
  An instance of a version class is its class and its dictionary \<open>__dict__\<close>. The descriptor
  that \<open>json.load\<close> returns is a list of items, a later item for the same key replacing an
  earlier one. The descriptor files carry data fields only: no key is taken to be the name
  of a method or class attribute of the version classes.
\<close>

datatype version_class = version_pypdfium2 | version_pdfium

record version_info =
  inst_class :: version_class
  inst_dict :: "string \<rightharpoonup> pyval"

text \<open>
  \<open>self.name = value\<close> and \<open>setattr(self, name, value)\<close>. Python finds the special method
  \<open>__setattr__\<close> on the type of the object and its bases, and does not look into the
  dictionary of the instance. None of \<open>_version_interface\<close>, \<open>_version_pypdfium2\<close> and
  \<open>_version_pdfium\<close> defines \<open>__setattr__\<close> in its class body, so the method found is
  \<open>object.__setattr__\<close>, which stores the value in the dictionary of the instance.
\<close>

definition setattr :: "version_info \<Rightarrow> string \<Rightarrow> pyval \<Rightarrow> error + version_info" where
  "setattr self name v = Inr (self\<lparr>inst_dict := (inst_dict self)(name \<mapsto> v)\<rparr>)"

definition getattr :: "version_info \<Rightarrow> string \<Rightarrow> error + pyval" where
  "getattr self name =
     (case inst_dict self name of None \<Rightarrow> Inl (AttributeError name) | Some v \<Rightarrow> Inr v)"

text \<open>
  The local function \<open>frozen_setattr\<close> of \<open>__init__\<close>: whenever it is called, it raises.
\<close>

definition frozen_setattr :: "version_info \<Rightarrow> string \<Rightarrow> pyval \<Rightarrow> error + version_info" where
  "frozen_setattr self name v =
     Inl (AttributeError (''Version class is immutable - assignment '' @ [CHR 0x27] @ name
            @ '' = '' @ py_str v @ [CHR 0x27] @ '' not allowed''))"

text \<open>\<open>self.name += s\<close> for a string \<open>s\<close>.\<close>

definition iadd_str :: "version_info \<Rightarrow> string \<Rightarrow> string \<Rightarrow> error + version_info" where
  "iadd_str self name s =
     bind_sum (getattr self name) (\<lambda>v.
       case v of PyStr t \<Rightarrow> setattr self name (PyStr (t @ s)) | _ \<Rightarrow> Inl TypeError)"

subsection \<open>The version classes\<close>

definition TAG_FIELDS :: "version_class \<Rightarrow> string list" where
  "TAG_FIELDS cls =
     (case cls of
        version_pypdfium2 \<Rightarrow> [''major'', ''minor'', ''patch'']
      | version_pdfium \<Rightarrow> [''major'', ''minor'', ''build'', ''patch''])"

definition craft_tag :: "version_info \<Rightarrow> error + string" where
  "craft_tag self =
     bind_sum (getattr self ''api_tag'') (\<lambda>api_tag.
     bind_sum (py_iter api_tag) (\<lambda>vs.
     Inr (join ''.'' (map py_str vs))))"

definition craft_desc :: "version_info \<Rightarrow> string list \<Rightarrow> error + string" where
  "craft_desc self suffix =
     bind_sum (getattr self ''n_commits'') (\<lambda>n_commits.
     bind_sum (gt_zero n_commits) (\<lambda>positive.
     bind_sum (if positive
               then bind_sum (getattr self ''hash'') (\<lambda>hash.
                      Inr [py_str n_commits, py_str hash])
               else Inr []) (\<lambda>local_ver.
     let local_ver = local_ver @ suffix;
         desc = [];
         desc = (if local_ver \<noteq> [] then desc @ ''+'' @ join ''.'' local_ver else desc)
     in Inr desc)))"

text \<open>\<open>_version_pypdfium2._hook\<close>.\<close>

definition hook_pypdfium2 :: "version_info \<Rightarrow> error + version_info" where
  "hook_pypdfium2 self =
     bind_sum (craft_tag self) (\<lambda>tag.
     bind_sum (setattr self ''tag'' (PyStr tag)) (\<lambda>self.
     bind_sum (getattr self ''beta'') (\<lambda>beta.
     bind_sum (if beta \<noteq> PyNone then iadd_str self ''tag'' (''b'' @ py_str beta)
               else Inr self) (\<lambda>self.
     bind_sum (getattr self ''dirty'') (\<lambda>dirty.
     let suffix = (if truthy dirty then [''dirty''] else []) in
     bind_sum (craft_desc self suffix) (\<lambda>desc.
     bind_sum (setattr self ''desc'' (PyStr desc)) (\<lambda>self.
     bind_sum (getattr self ''data_source'') (\<lambda>data_source.
     bind_sum (if data_source \<noteq> PyStr ''git''
               then iadd_str self ''desc'' ('':'' @ py_str data_source)
               else Inr self) (\<lambda>self.
     bind_sum (getattr self ''is_editable'') (\<lambda>is_editable.
     if truthy is_editable then iadd_str self ''desc'' ''@editable'' else Inr self))))))))))"

text \<open>\<open>_version_pdfium._hook\<close>.\<close>

definition hook_pdfium :: "version_info \<Rightarrow> error + version_info" where
  "hook_pdfium self =
     bind_sum (getattr self ''flags'') (\<lambda>flags.
     bind_sum (py_iter flags) (\<lambda>items.
     bind_sum (setattr self ''flags'' (PyTuple items)) (\<lambda>self.
     bind_sum (craft_tag self) (\<lambda>tag.
     bind_sum (setattr self ''tag'' (PyStr tag)) (\<lambda>self.
     bind_sum (craft_desc self []) (\<lambda>desc.
     bind_sum (setattr self ''desc'' (PyStr desc)) (\<lambda>self.
     bind_sum (getattr self ''flags'') (\<lambda>flags.
     bind_sum (if truthy flags
               then bind_sum (str_join '','' flags) (\<lambda>joined.
                      iadd_str self ''desc'' ('':{'' @ joined @ ''}''))
               else Inr self) (\<lambda>self.
     bind_sum (getattr self ''origin'') (\<lambda>origin.
     if origin \<noteq> PyStr ''pdfium-binaries''
     then iadd_str self ''desc'' (''@'' @ py_str origin)
     else Inr self))))))))))"

definition hook :: "version_info \<Rightarrow> error + version_info" where
  "hook self =
     (case inst_class self of
        version_pypdfium2 \<Rightarrow> hook_pypdfium2 self
      | version_pdfium \<Rightarrow> hook_pdfium self)"

text \<open>The loop \<open>for k, v in data.items(): setattr(self, k, v)\<close>.\<close>

fun setattr_items :: "version_info \<Rightarrow> (string \<times> pyval) list \<Rightarrow> error + version_info" where
  "setattr_items self [] = Inr self"
| "setattr_items self ((k, v) # items) =
     bind_sum (setattr self k v) (\<lambda>self. setattr_items self items)"

text \<open>\<open>tuple(data[k] for k in self._TAG_FIELDS)\<close>; a missing key is a \<open>KeyError\<close>.\<close>

fun tag_values :: "(string \<times> pyval) list \<Rightarrow> string list \<Rightarrow> error + pyval list" where
  "tag_values data [] = Inr []"
| "tag_values data (k # ks) =
     (case map_of (rev data) k of
        None \<Rightarrow> Inl KeyError
      | Some v \<Rightarrow> bind_sum (tag_values data ks) (\<lambda>vs. Inr (v # vs)))"

text \<open>
  \<open>_version_interface.__init__\<close>, given the class of the new instance and the descriptor
  read from its file. The last statement, \<open>self.__setattr__ = frozen_setattr\<close>, is an
  attribute assignment as the others are.
\<close>

definition version_interface_init ::
  "version_class \<Rightarrow> (string \<times> pyval) list \<Rightarrow> error + version_info" where
  "version_interface_init cls data =
     (let self = \<lparr>inst_class = cls, inst_dict = Map.empty\<rparr> in
      bind_sum (setattr_items self data) (\<lambda>self.
      bind_sum (tag_values data (TAG_FIELDS cls)) (\<lambda>vs.
      bind_sum (setattr self ''api_tag'' (PyTuple vs)) (\<lambda>self.
      bind_sum (hook self) (\<lambda>self.
      bind_sum (getattr self ''tag'') (\<lambda>tag.
      bind_sum (getattr self ''desc'') (\<lambda>desc.
      bind_sum (case (tag, desc) of
                  (PyStr t, PyStr d) \<Rightarrow> setattr self ''version'' (PyStr (t @ d))
                | _ \<Rightarrow> Inl TypeError) (\<lambda>self.
      setattr self ''__setattr__'' (PyFunction ''frozen_setattr'')))))))))"

text \<open>Two descriptors as the packages ship them, for a release and for a bundled binary.\<close>

definition pypdfium2_json :: "(string \<times> pyval) list" where
  "pypdfium2_json =
     [(''major'', PyInt 4), (''minor'', PyInt 30), (''patch'', PyInt 0), (''beta'', PyNone),
      (''n_commits'', PyInt 0), (''hash'', PyNone), (''dirty'', PyBool False),
      (''data_source'', PyStr ''git''), (''is_editable'', PyBool False)]"

definition pdfium_json :: "(string \<times> pyval) list" where
  "pdfium_json =
     [(''major'', PyInt 127), (''minor'', PyInt 0), (''build'', PyInt 6517),
      (''patch'', PyInt 0), (''n_commits'', PyInt 0), (''hash'', PyNone),
      (''origin'', PyStr ''pdfium-binaries''), (''flags'', PyList [])]"

text \<open>The two records the module creates on import.\<close>

definition PYPDFIUM_INFO :: "error + version_info" where
  "PYPDFIUM_INFO = version_interface_init version_pypdfium2 pypdfium2_json"

definition PDFIUM_INFO :: "error + version_info" where
  "PDFIUM_INFO = version_interface_init version_pdfium pdfium_json"

section \<open>The native library and the Python heap\<close>

text \<open>
  The rendering library is reached through \<open>pypdfium2.raw\<close> (\<open>pdfium_c\<close>). It is not part
  of the wrapper, so its behaviour is a parameter: a record of response functions over a
  state \<open>'l\<close> of the library. The wrapper's own state is the Python heap of buffer objects,
  the set of page objects that are still alive, and the log of the native calls it made.
\<close>

type_synonym byte = "8 word"
type_synonym handle = nat      \<comment> \<open>\<open>FPDF_BITMAP\<close>; 0 is the null handle\<close>
type_synonym pointer = nat     \<comment> \<open>an address in library memory; 0 is the null pointer\<close>
type_synonym ref = nat         \<comment> \<open>the identity of a Python object\<close>
type_synonym c_double = "64 word"  \<comment> \<open>the bits of a \<open>ctypes.c_double\<close>\<close>
type_synonym c_int = "32 word"     \<comment> \<open>the bits of a \<open>ctypes.c_int\<close>\<close>
type_synonym canvas_args = "int \<times> int \<times> int \<times> int \<times> int"
  \<comment> \<open>\<open>(start_x, start_y, size_x, size_y, rotate)\<close>\<close>

text \<open>
  A buffer object is either an object of the Python heap (a ctypes array or a bytes object)
  or the view \<open>ctypes.cast(ptr, POINTER(c_ubyte * n)).contents\<close> of library memory.
\<close>

datatype buffer = PyBuffer ref | ForeignView pointer int

datatype call =
    Call_GetWidth handle
  | Call_GetHeight handle
  | Call_GetFormat handle
  | Call_GetStride handle
  | Call_GetBuffer handle
  | Call_CreateEx int int int "buffer option" int
  | Call_Create int int bool
  | Call_Destroy handle
  | Call_DeviceToPage ref canvas_args int int
  | Call_PageToDevice ref canvas_args c_double c_double

record 'l pdfium_c =
  GetWidth :: "'l \<Rightarrow> handle \<Rightarrow> int"
  GetHeight :: "'l \<Rightarrow> handle \<Rightarrow> int"
  GetFormat :: "'l \<Rightarrow> handle \<Rightarrow> int"
  GetStride :: "'l \<Rightarrow> handle \<Rightarrow> int"
  GetBuffer :: "'l \<Rightarrow> handle \<Rightarrow> pointer"
  CreateEx :: "'l \<Rightarrow> int \<Rightarrow> int \<Rightarrow> int \<Rightarrow> buffer option \<Rightarrow> int \<Rightarrow> handle \<times> 'l"
  Create :: "'l \<Rightarrow> int \<Rightarrow> int \<Rightarrow> bool \<Rightarrow> handle \<times> 'l"
  Destroy :: "'l \<Rightarrow> handle \<Rightarrow> 'l"
  DeviceToPage :: "'l \<Rightarrow> ref \<Rightarrow> canvas_args \<Rightarrow> int \<Rightarrow> int \<Rightarrow> int \<times> c_double \<times> c_double"
  PageToDevice :: "'l \<Rightarrow> ref \<Rightarrow> canvas_args \<Rightarrow> c_double \<Rightarrow> c_double \<Rightarrow> int \<times> c_int \<times> c_int"

record 'l world =
  heap :: "byte list list"   \<comment> \<open>the buffer objects of Python, \<open>PyBuffer r\<close> is entry \<open>r\<close>\<close>
  live :: "ref set"          \<comment> \<open>the page objects that have not been destroyed\<close>
  native :: 'l               \<comment> \<open>the state of the native library\<close>
  calls :: "call list"       \<comment> \<open>the native calls made so far, oldest first\<close>

text \<open>A computation of the wrapper: it reads and changes the world and returns or raises.\<close>

type_synonym ('l, 'a) py = "'l world \<Rightarrow> (error + 'a) \<times> 'l world"

definition py_return :: "'a \<Rightarrow> ('l, 'a) py" where
  "py_return x s = (Inr x, s)"

definition py_raise :: "error \<Rightarrow> ('l, 'a) py" where
  "py_raise e s = (Inl e, s)"

definition py_bind :: "('l, 'a) py \<Rightarrow> ('a \<Rightarrow> ('l, 'b) py) \<Rightarrow> ('l, 'b) py" where
  "py_bind m f s = (case m s of (Inl e, s') \<Rightarrow> (Inl e, s') | (Inr x, s') \<Rightarrow> f x s')"

subsection \<open>Calls into the library\<close>

definition FPDFBitmap_GetWidth :: "'l pdfium_c \<Rightarrow> handle \<Rightarrow> ('l, int) py" where
  "FPDFBitmap_GetWidth C raw s =
     (Inr (GetWidth C (native s) raw), s\<lparr>calls := calls s @ [Call_GetWidth raw]\<rparr>)"

definition FPDFBitmap_GetHeight :: "'l pdfium_c \<Rightarrow> handle \<Rightarrow> ('l, int) py" where
  "FPDFBitmap_GetHeight C raw s =
     (Inr (GetHeight C (native s) raw), s\<lparr>calls := calls s @ [Call_GetHeight raw]\<rparr>)"

definition FPDFBitmap_GetFormat :: "'l pdfium_c \<Rightarrow> handle \<Rightarrow> ('l, int) py" where
  "FPDFBitmap_GetFormat C raw s =
     (Inr (GetFormat C (native s) raw), s\<lparr>calls := calls s @ [Call_GetFormat raw]\<rparr>)"

definition FPDFBitmap_GetStride :: "'l pdfium_c \<Rightarrow> handle \<Rightarrow> ('l, int) py" where
  "FPDFBitmap_GetStride C raw s =
     (Inr (GetStride C (native s) raw), s\<lparr>calls := calls s @ [Call_GetStride raw]\<rparr>)"

definition FPDFBitmap_GetBuffer :: "'l pdfium_c \<Rightarrow> handle \<Rightarrow> ('l, pointer) py" where
  "FPDFBitmap_GetBuffer C raw s =
     (Inr (GetBuffer C (native s) raw), s\<lparr>calls := calls s @ [Call_GetBuffer raw]\<rparr>)"

definition FPDFBitmap_CreateEx ::
  "'l pdfium_c \<Rightarrow> int \<Rightarrow> int \<Rightarrow> int \<Rightarrow> buffer option \<Rightarrow> int \<Rightarrow> ('l, handle) py" where
  "FPDFBitmap_CreateEx C wd ht fmt first_scan strd s =
     (let (raw, l) = CreateEx C (native s) wd ht fmt first_scan strd
      in (Inr raw, s\<lparr>native := l, calls := calls s @ [Call_CreateEx wd ht fmt first_scan strd]\<rparr>))"

definition FPDFBitmap_Create :: "'l pdfium_c \<Rightarrow> int \<Rightarrow> int \<Rightarrow> bool \<Rightarrow> ('l, handle) py" where
  "FPDFBitmap_Create C wd ht alpha s =
     (let (raw, l) = Create C (native s) wd ht alpha
      in (Inr raw, s\<lparr>native := l, calls := calls s @ [Call_Create wd ht alpha]\<rparr>))"

definition FPDFBitmap_Destroy :: "'l pdfium_c \<Rightarrow> handle \<Rightarrow> ('l, unit) py" where
  "FPDFBitmap_Destroy C raw s =
     (Inr (), s\<lparr>native := Destroy C (native s) raw, calls := calls s @ [Call_Destroy raw]\<rparr>)"

definition FPDF_DeviceToPage ::
  "'l pdfium_c \<Rightarrow> ref \<Rightarrow> canvas_args \<Rightarrow> int \<Rightarrow> int \<Rightarrow> ('l, int \<times> c_double \<times> c_double) py" where
  "FPDF_DeviceToPage C pg args device_x device_y s =
     (Inr (DeviceToPage C (native s) pg args device_x device_y),
      s\<lparr>calls := calls s @ [Call_DeviceToPage pg args device_x device_y]\<rparr>)"

definition FPDF_PageToDevice ::
  "'l pdfium_c \<Rightarrow> ref \<Rightarrow> canvas_args \<Rightarrow> c_double \<Rightarrow> c_double \<Rightarrow> ('l, int \<times> c_int \<times> c_int) py" where
  "FPDF_PageToDevice C pg args px py s =
     (Inr (PageToDevice C (native s) pg args px py),
      s\<lparr>calls := calls s @ [Call_PageToDevice pg args px py]\<rparr>)"

subsection \<open>Buffer objects\<close>

text \<open>\<open>len(buffer)\<close>.\<close>

definition buffer_len :: "'l world \<Rightarrow> buffer \<Rightarrow> int" where
  "buffer_len s b = (case b of PyBuffer r \<Rightarrow> int (length (heap s ! r)) | ForeignView p n \<Rightarrow> n)"

text \<open>
  \<open>(ctypes.c_ubyte * n)()\<close>: a new array object of \<open>n\<close> zero bytes; ctypes refuses a negative
  length with a \<open>ValueError\<close>.
\<close>

definition ctypes_array :: "int \<Rightarrow> ('l, buffer) py" where
  "ctypes_array n s =
     (if n < 0 then (Inl ValueError, s)
      else (Inr (PyBuffer (length (heap s))), s\<lparr>heap := heap s @ [replicate (nat n) 0]\<rparr>))"

text \<open>\<open>ctypes.cast(buffer_ptr, ctypes.POINTER(ctypes.c_ubyte * n)).contents\<close>.\<close>

definition ctypes_cast_contents :: "pointer \<Rightarrow> int \<Rightarrow> ('l, buffer) py" where
  "ctypes_cast_contents buffer_ptr n =
     (if n < 0 then py_raise ValueError else py_return (ForeignView buffer_ptr n))"

section \<open>bitmap.py\<close>

subsection \<open>The tables of \<open>pypdfium2.internal\<close>\<close>

text \<open>
  The lookup tables \<open>pdfium_i.BitmapTypeToNChannels\<close> and the like are not among the sources
  at hand; they are parameters. A missing key is a \<open>KeyError\<close>.
\<close>

record pdfium_i =
  BitmapTypeToNChannels :: "int \<rightharpoonup> int"
  BitmapTypeToStr :: "int \<rightharpoonup> string"
  BitmapTypeToStrReverse :: "int \<rightharpoonup> string"
  BitmapStrToConst :: "string \<rightharpoonup> int"
  BitmapStrReverseToConst :: "string \<rightharpoonup> int"

definition subscript :: "('k \<rightharpoonup> 'v) \<Rightarrow> 'k \<Rightarrow> ('l, 'v) py" where
  "subscript d k = (case d k of None \<Rightarrow> py_raise KeyError | Some v \<Rightarrow> py_return v)"

subsection \<open>\<open>PdfBitmap\<close>\<close>

record PdfBitmap =
  bm_raw :: handle
  bm_buffer :: buffer
  bm_width :: int
  bm_height :: int
  bm_stride :: int
  bm_format :: int
  bm_rev_byteorder :: bool
  bm_n_channels :: int
  bm_mode :: string
  bm_pos_args :: "(ref \<times> canvas_args) option"
    \<comment> \<open>\<open>_pos_args\<close>: a weak reference to the page, then the five canvas arguments\<close>
  bm_needs_free :: bool
    \<comment> \<open>the flag handed to \<open>AutoCloseable.__init__\<close> with \<open>FPDFBitmap_Destroy\<close>\<close>

text \<open>\<open>PdfBitmap.__init__\<close>.\<close>

definition PdfBitmap_init ::
  "pdfium_i \<Rightarrow> handle \<Rightarrow> buffer \<Rightarrow> int \<Rightarrow> int \<Rightarrow> int \<Rightarrow> int \<Rightarrow> bool \<Rightarrow> bool \<Rightarrow> ('l, PdfBitmap) py"
  where
  "PdfBitmap_init I raw buffer width height stride format rev_byteorder needs_free =
     py_bind (subscript (BitmapTypeToNChannels I) format) (\<lambda>n_channels.
     py_bind (subscript (if rev_byteorder then BitmapTypeToStrReverse I else BitmapTypeToStr I)
                format) (\<lambda>mode.
     py_return \<lparr>bm_raw = raw, bm_buffer = buffer, bm_width = width, bm_height = height,
       bm_stride = stride, bm_format = format, bm_rev_byteorder = rev_byteorder,
       bm_n_channels = n_channels, bm_mode = mode, bm_pos_args = None,
       bm_needs_free = needs_free\<rparr>))"

definition from_raw ::
  "'l pdfium_c \<Rightarrow> pdfium_i \<Rightarrow> handle \<Rightarrow> bool \<Rightarrow> buffer option \<Rightarrow> ('l, PdfBitmap) py" where
  "from_raw C I raw rev_byteorder ex_buffer =
     py_bind (FPDFBitmap_GetWidth C raw) (\<lambda>width.
     py_bind (FPDFBitmap_GetHeight C raw) (\<lambda>height.
     py_bind (FPDFBitmap_GetFormat C raw) (\<lambda>format.
     py_bind (FPDFBitmap_GetStride C raw) (\<lambda>stride.
     (case ex_buffer of
        None \<Rightarrow>
          py_bind (FPDFBitmap_GetBuffer C raw) (\<lambda>buffer_ptr.
          if buffer_ptr = 0
          then py_raise (PdfiumError ''Failed to get bitmap buffer (null pointer returned)'')
          else py_bind (ctypes_cast_contents buffer_ptr (stride * height)) (\<lambda>buffer.
               PdfBitmap_init I raw buffer width height stride format rev_byteorder True))
      | Some buffer \<Rightarrow>
          PdfBitmap_init I raw buffer width height stride format rev_byteorder False)))))"

definition new_native ::
  "'l pdfium_c \<Rightarrow> pdfium_i \<Rightarrow> int \<Rightarrow> int \<Rightarrow> int \<Rightarrow> bool \<Rightarrow> buffer option \<Rightarrow> int option
     \<Rightarrow> ('l, PdfBitmap) py" where
  "new_native C I width height format rev_byteorder buffer stride =
     py_bind (subscript (BitmapTypeToNChannels I) format) (\<lambda>bpc.
     py_bind (case stride of
                None \<Rightarrow> py_return (width * bpc)
              | Some stride \<Rightarrow>
                  if stride \<ge> width * bpc then py_return stride else py_raise AssertionError)
       (\<lambda>stride.
     py_bind (case buffer of
                None \<Rightarrow> ctypes_array (stride * height)
              | Some buffer \<Rightarrow> (\<lambda>s.
                  if buffer_len s buffer \<ge> stride * height then py_return buffer s
                  else py_raise AssertionError s))
       (\<lambda>buffer.
     py_bind (FPDFBitmap_CreateEx C width height format (Some buffer) stride) (\<lambda>raw.
     from_raw C I raw rev_byteorder (Some buffer)))))"

definition new_foreign ::
  "'l pdfium_c \<Rightarrow> pdfium_i \<Rightarrow> int \<Rightarrow> int \<Rightarrow> int \<Rightarrow> bool \<Rightarrow> bool \<Rightarrow> ('l, PdfBitmap) py" where
  "new_foreign C I width height format rev_byteorder force_packed =
     py_bind (if force_packed
              then py_bind (subscript (BitmapTypeToNChannels I) format) (\<lambda>n.
                   py_return (width * n))
              else py_return 0) (\<lambda>stride.
     py_bind (FPDFBitmap_CreateEx C width height format None stride) (\<lambda>raw.
     from_raw C I raw rev_byteorder None))"

definition new_foreign_simple ::
  "'l pdfium_c \<Rightarrow> pdfium_i \<Rightarrow> int \<Rightarrow> int \<Rightarrow> bool \<Rightarrow> bool \<Rightarrow> ('l, PdfBitmap) py" where
  "new_foreign_simple C I width height use_alpha rev_byteorder =
     py_bind (FPDFBitmap_Create C width height use_alpha) (\<lambda>raw.
     from_raw C I raw rev_byteorder None)"

text \<open>
  Modelled from the spec: \<open>close\<close> is inherited from \<open>AutoCloseable\<close> of
  \<open>pypdfium2.internal\<close>, which is not among the sources. The spec describes a finalizer
  object around the raw handle with a boolean needs-free flag, whose destruction dispatches
  on the flag: the close function handed over by \<open>PdfBitmap.__init__\<close>,
  \<open>FPDFBitmap_Destroy\<close>, runs on the handle when the flag is set, and nothing is released
  otherwise.
\<close>

definition close :: "'l pdfium_c \<Rightarrow> PdfBitmap \<Rightarrow> ('l, unit) py" where
  "close C bm =
     (if bm_needs_free bm then FPDFBitmap_Destroy C (bm_raw bm) else py_return ())"

subsection \<open>Images of PIL\<close>

text \<open>
  A PIL image is its mode, its size and its bands, each band holding one byte per pixel.
  \<open>split\<close> yields the bands, \<open>merge\<close> puts bands together, and \<open>tobytes\<close> builds a new
  bytes object with the pixels interleaved. \<open>convert\<close> is PIL's own and a parameter.
\<close>

record PIL_Image =
  im_mode :: string
  im_size :: "int \<times> int"
  im_bands :: "byte list list"

definition tobytes :: "PIL_Image \<Rightarrow> ('l, buffer) py" where
  "tobytes im s =
     (Inr (PyBuffer (length (heap s))), s\<lparr>heap := heap s @ [concat (transpose (im_bands im))]\<rparr>)"

definition merge :: "string \<Rightarrow> int \<times> int \<Rightarrow> byte list list \<Rightarrow> PIL_Image" where
  "merge m sz bands = \<lparr>im_mode = m, im_size = sz, im_bands = bands\<rparr>"

text \<open>\<open>_pil_convert_for_pdfium\<close>; unpacking \<open>split()\<close> into the wrong number of names raises.\<close>

definition pil_convert_for_pdfium ::
  "(string \<Rightarrow> PIL_Image \<Rightarrow> error + PIL_Image) \<Rightarrow> PIL_Image \<Rightarrow> error + PIL_Image" where
  "pil_convert_for_pdfium convert pil_image =
     (case (if im_mode pil_image = ''1'' then convert ''L'' pil_image
            else if take 3 (im_mode pil_image) = ''RGB'' then Inr pil_image
            else if CHR ''A'' \<in> set (im_mode pil_image) then convert ''RGBA'' pil_image
            else convert ''RGB'' pil_image) of
        Inl e \<Rightarrow> Inl e
      | Inr pil_image \<Rightarrow>
          if im_mode pil_image = ''RGB'' then
            (case im_bands pil_image of
               [r, g, b] \<Rightarrow> Inr (merge ''RGB'' (im_size pil_image) [b, g, r])
             | _ \<Rightarrow> Inl ValueError)
          else if im_mode pil_image = ''RGBA'' then
            (case im_bands pil_image of
               [r, g, b, a] \<Rightarrow> Inr (merge ''RGBA'' (im_size pil_image) [b, g, r, a])
             | _ \<Rightarrow> Inl ValueError)
          else if im_mode pil_image = ''RGBX'' then
            (case im_bands pil_image of
               [r, g, b, x] \<Rightarrow> Inr (merge ''RGBX'' (im_size pil_image) [b, g, r, x])
             | _ \<Rightarrow> Inl ValueError)
          else Inr pil_image)"

text \<open>The image and the format \<open>from_pil\<close> settles on before it reads the size.\<close>

definition from_pil_format ::
  "pdfium_i \<Rightarrow> (string \<Rightarrow> PIL_Image \<Rightarrow> error + PIL_Image) \<Rightarrow> PIL_Image
     \<Rightarrow> error + PIL_Image \<times> int" where
  "from_pil_format I convert pil_image =
     (case BitmapStrToConst I (im_mode pil_image) of
        Some format \<Rightarrow> Inr (pil_image, format)
      | None \<Rightarrow>
          (case pil_convert_for_pdfium convert pil_image of
             Inl e \<Rightarrow> Inl e
           | Inr pil_image \<Rightarrow>
               (case BitmapStrReverseToConst I (im_mode pil_image) of
                  None \<Rightarrow> Inl KeyError
                | Some format \<Rightarrow> Inr (pil_image, format))))"

definition from_pil ::
  "'l pdfium_c \<Rightarrow> pdfium_i \<Rightarrow> (string \<Rightarrow> PIL_Image \<Rightarrow> error + PIL_Image) \<Rightarrow> PIL_Image
     \<Rightarrow> ('l, PdfBitmap) py" where
  "from_pil C I convert pil_image =
     (case from_pil_format I convert pil_image of
        Inl e \<Rightarrow> py_raise e
      | Inr (pil_image, format) \<Rightarrow>
          (case im_size pil_image of (w, h) \<Rightarrow>
             py_bind (tobytes pil_image) (\<lambda>buffer.
             new_native C I w h format False (Some buffer) None)))"

subsection \<open>\<open>PdfPosConv\<close>\<close>

text \<open>
  A page handed to \<open>get_posconv\<close> or to \<open>PdfPosConv\<close> is \<open>None\<close> or a page object; page
  objects are truthy. A weak reference yields its page while the page is alive and \<open>None\<close>
  afterwards.
\<close>

record PdfPosConv =
  pc_page :: ref
  pc_pos_args :: canvas_args

definition weakref_call :: "'l world \<Rightarrow> ref \<Rightarrow> ref option" where
  "weakref_call s r = (if r \<in> live s then Some r else None)"

text \<open>\<open>PdfPosConv.__init__\<close>: \<open>assert bool(page)\<close>.\<close>

definition PdfPosConv_init :: "ref option \<Rightarrow> canvas_args \<Rightarrow> ('l, PdfPosConv) py" where
  "PdfPosConv_init page pos_args =
     (case page of
        None \<Rightarrow> py_raise AssertionError
      | Some p \<Rightarrow> py_return \<lparr>pc_page = p, pc_pos_args = pos_args\<rparr>)"

definition get_posconv :: "PdfBitmap \<Rightarrow> ref option \<Rightarrow> ('l, PdfPosConv) py" where
  "get_posconv self page s =
     (case bm_pos_args self of
        None \<Rightarrow> py_raise (RuntimeError ''This bitmap does not belong to the given page.'') s
      | Some (wr, args) \<Rightarrow>
          if weakref_call s wr \<noteq> page
          then py_raise (RuntimeError ''This bitmap does not belong to the given page.'') s
          else PdfPosConv_init page args s)"

definition to_page :: "'l pdfium_c \<Rightarrow> PdfPosConv \<Rightarrow> int \<Rightarrow> int \<Rightarrow> ('l, c_double \<times> c_double) py"
  where
  "to_page C self bitmap_x bitmap_y =
     py_bind (FPDF_DeviceToPage C (pc_page self) (pc_pos_args self) bitmap_x bitmap_y)
       (\<lambda>(ok, page_x, page_y).
          if ok = 0 then py_raise (PdfiumError ''Failed to translate to page coordinates.'')
          else py_return (page_x, page_y))"

definition to_bitmap :: "'l pdfium_c \<Rightarrow> PdfPosConv \<Rightarrow> c_double \<Rightarrow> c_double \<Rightarrow> ('l, int \<times> int) py"
  where
  "to_bitmap C self page_x page_y =
     py_bind (FPDF_PageToDevice C (pc_page self) (pc_pos_args self) page_x page_y)
       (\<lambda>(ok, bitmap_x, bitmap_y).
          if ok = 0 then py_raise (PdfiumError ''Failed to translate to bitmap coordinates.'')
          else py_return (sint bitmap_x, sint bitmap_y))"

section \<open>A stand-in for the library\<close>

text \<open>
  To run the wrapper on concrete inputs, the parameters need values. The tables below hold
  the format constants of PDFium's public header (Gray 1, BGR 2, BGRx 3, BGRA 4). The
  library stand-in keeps the bitmaps it created in a list, handle \<open>k\<close> being entry \<open>k - 1\<close>;
  it refuses empty bitmaps and unknown formats with the null handle and answers 0 for a
  handle it does not know. Its coordinate transform shifts by the canvas origin and fails on
  an empty canvas.
\<close>

definition pdfium_tables :: pdfium_i where
  "pdfium_tables = \<lparr>
     BitmapTypeToNChannels = [1 \<mapsto> 1, 2 \<mapsto> 3, 3 \<mapsto> 4, 4 \<mapsto> 4],
     BitmapTypeToStr = [1 \<mapsto> ''L'', 2 \<mapsto> ''BGR'', 3 \<mapsto> ''BGRX'', 4 \<mapsto> ''BGRA''],
     BitmapTypeToStrReverse = [1 \<mapsto> ''L'', 2 \<mapsto> ''RGB'', 3 \<mapsto> ''RGBX'', 4 \<mapsto> ''RGBA''],
     BitmapStrToConst = [''L'' \<mapsto> 1, ''BGR'' \<mapsto> 2, ''BGRX'' \<mapsto> 3, ''BGRA'' \<mapsto> 4],
     BitmapStrReverseToConst = [''L'' \<mapsto> 1, ''RGB'' \<mapsto> 2, ''RGBX'' \<mapsto> 3, ''RGBA'' \<mapsto> 4]\<rparr>"

record sim_bitmap =
  sb_width :: int
  sb_height :: int
  sb_format :: int
  sb_stride :: int
  sb_buffer :: pointer

definition sim_lookup :: "sim_bitmap list \<Rightarrow> handle \<Rightarrow> sim_bitmap option" where
  "sim_lookup l raw = (if 0 < raw \<and> raw \<le> length l then Some (l ! (raw - 1)) else None)"

definition sim_create ::
  "sim_bitmap list \<Rightarrow> int \<Rightarrow> int \<Rightarrow> int \<Rightarrow> int \<Rightarrow> handle \<times> sim_bitmap list" where
  "sim_create l wd ht fmt strd =
     (if wd \<le> 0 \<or> ht \<le> 0 \<or> fmt < 1 \<or> 4 < fmt then (0, l)
      else (Suc (length l),
            l @ [\<lparr>sb_width = wd, sb_height = ht, sb_format = fmt,
                  sb_stride = (if strd = 0 then 4 * wd else strd),
                  sb_buffer = 4096 * Suc (length l)\<rparr>]))"

definition sim_pdfium :: "sim_bitmap list pdfium_c" where
  "sim_pdfium = \<lparr>
     GetWidth = (\<lambda>l raw. case sim_lookup l raw of None \<Rightarrow> 0 | Some b \<Rightarrow> sb_width b),
     GetHeight = (\<lambda>l raw. case sim_lookup l raw of None \<Rightarrow> 0 | Some b \<Rightarrow> sb_height b),
     GetFormat = (\<lambda>l raw. case sim_lookup l raw of None \<Rightarrow> 0 | Some b \<Rightarrow> sb_format b),
     GetStride = (\<lambda>l raw. case sim_lookup l raw of None \<Rightarrow> 0 | Some b \<Rightarrow> sb_stride b),
     GetBuffer = (\<lambda>l raw. case sim_lookup l raw of None \<Rightarrow> 0 | Some b \<Rightarrow> sb_buffer b),
     CreateEx = (\<lambda>l wd ht fmt first_scan strd. sim_create l wd ht fmt strd),
     Create = (\<lambda>l wd ht alpha. sim_create l wd ht (if alpha then 4 else 3) 0),
     Destroy = (\<lambda>l raw. l),
     DeviceToPage = (\<lambda>l pg (start_x, start_y, size_x, size_y, rotate) x y.
        if size_x = 0 \<or> size_y = 0 then (0, 0, 0)
        else (1, word_of_int (x - start_x), word_of_int (y - start_y))),
     PageToDevice = (\<lambda>l pg (start_x, start_y, size_x, size_y, rotate) x y.
        if size_x = 0 \<or> size_y = 0 then (0, 0, 0)
        else (1, word_of_int (sint x + start_x), word_of_int (sint y + start_y)))\<rparr>"

definition sim_world :: "sim_bitmap list world" where
  "sim_world = \<lparr>heap = [], live = {}, native = [], calls = []\<rparr>"

text \<open>The four queries \<open>from_raw\<close> starts with.\<close>

definition queried :: "handle \<Rightarrow> call list" where
  "queried raw = [Call_GetWidth raw, Call_GetHeight raw, Call_GetFormat raw, Call_GetStride raw]"

text \<open>The exception of \<open>get_posconv\<close>.\<close>

definition not_this_page :: error where
  "not_this_page = RuntimeError ''This bitmap does not belong to the given page.''"

text \<open>Concrete inputs: a bitmap rendered from page \<open>pg\<close>, an image, and a \<open>convert\<close> that refuses.\<close>

definition rendered :: "ref \<Rightarrow> PdfBitmap" where
  "rendered pg = \<lparr>bm_raw = 1, bm_buffer = PyBuffer 0, bm_width = 2, bm_height = 2,
     bm_stride = 8, bm_format = 4, bm_rev_byteorder = False, bm_n_channels = 4,
     bm_mode = ''BGRA'', bm_pos_args = Some (pg, (0, 0, 2, 2, 0)), bm_needs_free = False\<rparr>"

definition rgb_image :: PIL_Image where
  "rgb_image = \<lparr>im_mode = ''RGB'', im_size = (2, 1), im_bands = [[1, 2], [3, 4], [5, 6]]\<rparr>"

definition no_convert :: "string \<Rightarrow> PIL_Image \<Rightarrow> error + PIL_Image" where
  "no_convert m im = Inl ValueError"

section \<open>Properties of \<open>colour_as_hex\<close>\<close>

lemma digit_val_hex_char:
  assumes "d < 16" shows "digit_val (hex_char d) = Some d"
proof -
  have "\<forall>d\<in>set [0..<16]. digit_val (hex_char d) = Some d"
    by (simp add: upt_rec digit_val_def hex_char_def)
  with assms show ?thesis by simp
qed

lemma hex_nat_small: "n < 16 \<Longrightarrow> hex_nat n = [hex_char n]"
  by (simp add: hex_nat.simps)

lemma hex_nat_byte:
  "16 \<le> n \<Longrightarrow> n < 256 \<Longrightarrow> hex_nat n = [hex_char (n div 16), hex_char (n mod 16)]"
  by (subst hex_nat.simps) (simp add: hex_nat_small less_mult_imp_div_less)

lemma hex_digits_byte:
  assumes "is_colour c"
  shows "hex_digits c =
    [hex_char (nat (int_value c) div 16), hex_char (nat (int_value c) mod 16)]"
proof (cases "nat (int_value c) < 16")
  case True
  then show ?thesis using assms
    by (simp add: is_colour_def hex_digits_def py_hex_def hex_nat_small hex_char_def)
next
  case False
  moreover have "nat (int_value c) < 256" using assms by (auto simp: is_colour_def)
  ultimately show ?thesis using assms
    by (simp add: is_colour_def hex_digits_def py_hex_def hex_nat_byte)
qed

lemma parse_digits_byte:
  assumes "n < 256"
  shows "parse_digits 16 (hex_char (n div 16) # hex_char (n mod 16) # cs) acc
       = parse_digits 16 cs (acc * 256 + n)"
proof -
  have "n div 16 < 16" using assms by (simp add: less_mult_imp_div_less)
  moreover have "n mod 16 < 16" by simp
  moreover have "(acc * 16 + n div 16) * 16 + n mod 16 = acc * 256 + n" by simp
  ultimately show ?thesis by (simp add: digit_val_hex_char ac_simps)
qed

lemma assert_colours_ok:
  "assert_colours cs = (if \<forall>c\<in>set cs. is_colour c then Inr () else Inl AssertionError)"
  by (induction cs) (auto simp: is_colour_def)

lemma colour_as_hex_ok:
  assumes "is_colour r" "is_colour g" "is_colour b" "is_colour a"
  shows "colour_as_hex r g b a =
     Inr (int_value a * 2 ^ 24 + int_value r * 2 ^ 16 + int_value g * 2 ^ 8 + int_value b)"
proof -
  define na nr ng nb where "na = nat (int_value a)" and "nr = nat (int_value r)"
    and "ng = nat (int_value g)" and "nb = nat (int_value b)"
  have bnd: "na < 256" "nr < 256" "ng < 256" "nb < 256"
    using assms by (auto simp: is_colour_def na_def nr_def ng_def nb_def)
  have vals: "int_value a = int na" "int_value r = int nr" "int_value g = int ng"
    "int_value b = int nb"
    using assms by (simp_all add: is_colour_def na_def nr_def ng_def nb_def)
  have str: "foldl (\<lambda>s c. s @ hex_digits c) ''0x'' [a, r, g, b] =
      ''0x'' @ [hex_char (na div 16), hex_char (na mod 16), hex_char (nr div 16),
        hex_char (nr mod 16), hex_char (ng div 16), hex_char (ng mod 16),
        hex_char (nb div 16), hex_char (nb mod 16)]"
    using assms by (simp add: hex_digits_byte na_def nr_def ng_def nb_def)
  have parse: "parse_digits 16 [hex_char (na div 16), hex_char (na mod 16),
        hex_char (nr div 16), hex_char (nr mod 16), hex_char (ng div 16),
        hex_char (ng mod 16), hex_char (nb div 16), hex_char (nb mod 16)] 0
      = Some (((na * 256 + nr) * 256 + ng) * 256 + nb)"
    using bnd by (simp only: parse_digits_byte parse_digits.simps(1) mult_0 add_0)
  have chk: "assert_colours [a, r, g, b] = Inr ()"
    using assms by (simp add: assert_colours_ok)
  have "colour_as_hex r g b a = Inr (int (((na * 256 + nr) * 256 + ng) * 256 + nb))"
    unfolding colour_as_hex_def Let_def chk str
    by (simp add: py_int_base0_def parse del: parse_digits.simps)
  then show ?thesis by (simp add: vals)
qed

lemma colour_as_hex_bad:
  assumes "\<not> (is_colour r \<and> is_colour g \<and> is_colour b \<and> is_colour a)"
  shows "colour_as_hex r g b a = Inl AssertionError"
  using assms by (auto simp: colour_as_hex_def assert_colours_ok)

text \<open>
  Claim C10. For integers \<open>r\<close>, \<open>g\<close>, \<open>b\<close>, \<open>a\<close> from 0 to 255, \<open>colour_as_hex\<close>
  returns \<open>a * 2^24 + r * 2^16 + g * 2^8 + b\<close> (with \<open>a = 255\<close> when it is left out);
  when one of the arguments is not an integer in that range, an assertion fails and no
  value is produced.
\<close>

theorem colour_as_hex_argb:
  "(is_colour r \<and> is_colour g \<and> is_colour b \<and> is_colour a \<longrightarrow>
      colour_as_hex r g b a =
        Inr (int_value a * 2 ^ 24 + int_value r * 2 ^ 16 + int_value g * 2 ^ 8 + int_value b)
      \<and> colour_as_hex_default r g b =
        Inr (255 * 2 ^ 24 + int_value r * 2 ^ 16 + int_value g * 2 ^ 8 + int_value b))
   \<and> (\<not> (is_colour r \<and> is_colour g \<and> is_colour b \<and> is_colour a) \<longrightarrow>
      colour_as_hex r g b a = Inl AssertionError)"
proof -
  have "is_colour (PyInt 255)" by (simp add: is_colour_def)
  then show ?thesis
    using colour_as_hex_ok [of r g b a] colour_as_hex_ok [of r g b "PyInt 255"]
      colour_as_hex_bad [of r g b a]
    by (simp add: colour_as_hex_default_def)
qed

theorem colour_as_hex_argb_witness:
  "colour_as_hex (PyInt 18) (PyInt 52) (PyInt 86) (PyInt 255) = Inr 4279383126
   \<and> colour_as_hex_default (PyInt 18) (PyInt 52) (PyInt 86) = Inr 4279383126
   \<and> colour_as_hex (PyInt 18) (PyInt 256) (PyInt 86) (PyInt 255) = Inl AssertionError
   \<and> colour_as_hex (PyInt 18) (PyStr ''52'') (PyInt 86) (PyInt 255) = Inl AssertionError"
  using colour_as_hex_argb [of "PyInt 18" "PyInt 52" "PyInt 86" "PyInt 255"]
    colour_as_hex_argb [of "PyInt 18" "PyInt 256" "PyInt 86" "PyInt 255"]
    colour_as_hex_argb [of "PyInt 18" "PyStr ''52''" "PyInt 86" "PyInt 255"]
  by (simp add: is_colour_def)

section \<open>Properties of the bitmap constructors\<close>

lemma py_bind_return [simp]: "py_bind (py_return x) f = f x"
  by (rule ext) (simp add: py_bind_def py_return_def)

lemma py_bind_raise [simp]: "py_bind (py_raise e) f = py_raise e"
  by (rule ext) (simp add: py_bind_def py_raise_def)

lemma py_bind_apply:
  "py_bind m f s = (case m s of (Inl e, s') \<Rightarrow> (Inl e, s') | (Inr x, s') \<Rightarrow> f x s')"
  by (simp add: py_bind_def)

lemmas native_call_defs =
  FPDFBitmap_GetWidth_def FPDFBitmap_GetHeight_def FPDFBitmap_GetFormat_def
  FPDFBitmap_GetStride_def FPDFBitmap_GetBuffer_def FPDFBitmap_CreateEx_def
  FPDFBitmap_Create_def FPDFBitmap_Destroy_def FPDF_DeviceToPage_def FPDF_PageToDevice_def

text \<open>What \<open>from_raw\<close> returns, spelled out for both kinds of call.\<close>

lemma PdfBitmap_init_result:
  "PdfBitmap_init I raw buffer width height stride format rv nf s = (Inr bm, s') \<Longrightarrow>
     s' = s \<and> bm_needs_free bm = nf \<and> bm_buffer bm = buffer \<and> bm_stride bm = stride
     \<and> bm_raw bm = raw \<and> bm_width bm = width \<and> bm_height bm = height \<and> bm_format bm = format"
  by (auto simp: PdfBitmap_init_def subscript_def py_return_def py_raise_def py_bind_apply
      split: option.splits if_splits)

lemma PdfBitmap_init_no_PdfiumError:
  "fst (PdfBitmap_init I raw buffer width height stride format rv nf s) \<noteq> Inl (PdfiumError m)"
  by (auto simp: PdfBitmap_init_def subscript_def py_return_def py_raise_def py_bind_apply
      split: option.splits if_splits)

lemma PdfBitmap_init_world:
  "snd (PdfBitmap_init I raw buffer width height stride format rv nf s) = s"
  by (auto simp: PdfBitmap_init_def subscript_def py_return_def py_raise_def py_bind_apply
      split: option.splits if_splits)

lemma from_raw_ex_buffer:
  "from_raw C I raw rv (Some b) s =
     PdfBitmap_init I raw b (GetWidth C (native s) raw) (GetHeight C (native s) raw)
       (GetStride C (native s) raw) (GetFormat C (native s) raw) rv False
       (s\<lparr>calls := calls s @ queried raw\<rparr>)"
  by (simp add: from_raw_def py_bind_apply native_call_defs queried_def)

lemma from_raw_no_buffer:
  "from_raw C I raw rv None s =
     (let s' = s\<lparr>calls := calls s @ queried raw @ [Call_GetBuffer raw]\<rparr> in
      if GetBuffer C (native s) raw = 0
      then (Inl (PdfiumError ''Failed to get bitmap buffer (null pointer returned)''), s')
      else if GetStride C (native s) raw * GetHeight C (native s) raw < 0
      then (Inl ValueError, s')
      else PdfBitmap_init I raw
        (ForeignView (GetBuffer C (native s) raw)
           (GetStride C (native s) raw * GetHeight C (native s) raw))
        (GetWidth C (native s) raw) (GetHeight C (native s) raw)
        (GetStride C (native s) raw) (GetFormat C (native s) raw) rv True s')"
  by (simp add: from_raw_def py_bind_apply native_call_defs queried_def
      ctypes_cast_contents_def py_raise_def py_return_def Let_def)


lemma from_raw_needs_free:
  "from_raw C I raw rv ex_buffer s = (Inr bm, s') \<Longrightarrow> bm_needs_free bm = (ex_buffer = None)"
  by (cases ex_buffer)
     (auto simp: from_raw_ex_buffer from_raw_no_buffer Let_def split: if_splits
       dest: PdfBitmap_init_result)

text \<open>
  Claim C9. When \<open>from_raw\<close> is called without an external buffer and the library answers
  the buffer query with the null pointer, it raises \<open>PdfiumError\<close>. When an external buffer
  is passed, the only native calls are the four queries of width, height, format and stride:
  the buffer pointer is not asked for, and no \<open>PdfiumError\<close> comes out.
\<close>

theorem from_raw_null_buffer:
  "(GetBuffer C (native s) raw = 0 \<longrightarrow>
      fst (from_raw C I raw rv None s) =
        Inl (PdfiumError ''Failed to get bitmap buffer (null pointer returned)''))
   \<and> calls (snd (from_raw C I raw rv (Some b) s)) = calls s @ queried raw
   \<and> Call_GetBuffer raw \<notin> set (queried raw)
   \<and> fst (from_raw C I raw rv (Some b) s) \<noteq> Inl (PdfiumError m)"
  by (simp add: from_raw_ex_buffer from_raw_no_buffer PdfBitmap_init_world
      PdfBitmap_init_no_PdfiumError queried_def)

theorem from_raw_null_buffer_witness:
  "fst (from_raw sim_pdfium pdfium_tables 0 False None sim_world) =
       Inl (PdfiumError ''Failed to get bitmap buffer (null pointer returned)'')
   \<and> calls (snd (from_raw sim_pdfium pdfium_tables 0 False (Some (PyBuffer 0)) sim_world)) =
       [Call_GetWidth 0, Call_GetHeight 0, Call_GetFormat 0, Call_GetStride 0]"
  using from_raw_null_buffer [of sim_pdfium sim_world 0 pdfium_tables False "PyBuffer 0"]
  by (simp add: sim_pdfium_def sim_world_def sim_lookup_def queried_def)


lemma new_native_bad_stride:
  assumes "BitmapTypeToNChannels I format = Some bpc" "stride < width * bpc"
  shows "new_native C I width height format rv buffer (Some stride) s = (Inl AssertionError, s)"
  using assms by (simp add: new_native_def subscript_def py_raise_def)

lemma new_native_bad_buffer:
  assumes "BitmapTypeToNChannels I format = Some bpc"
    and "buffer_len s b < (case stride of None \<Rightarrow> width * bpc | Some st \<Rightarrow> st) * height"
  shows "new_native C I width height format rv (Some b) stride s = (Inl AssertionError, s)"
  using assms
  by (cases stride)
     (simp_all add: new_native_def subscript_def py_raise_def py_return_def py_bind_apply)

text \<open>
  Claim C2. For a format the channel table knows, \<open>new_native\<close> with an explicit stride
  below \<open>width * channels\<close> fails its assertion, and so does \<open>new_native\<close> with an explicit
  buffer shorter than \<open>stride * height\<close> (the stride being the explicit one, or
  \<open>width * channels\<close>). In both cases the world is as before: no native call was made, and
  no bitmap was created.
\<close>

theorem new_native_invalid_argument:
  assumes "BitmapTypeToNChannels I format = Some bpc"
  shows "(stride < width * bpc \<longrightarrow>
            new_native C I width height format rv buffer (Some stride) s = (Inl AssertionError, s))
       \<and> (buffer_len s b < (case stride' of None \<Rightarrow> width * bpc | Some st \<Rightarrow> st) * height \<longrightarrow>
            new_native C I width height format rv (Some b) stride' s = (Inl AssertionError, s))"
  using assms new_native_bad_stride new_native_bad_buffer by blast

theorem new_native_invalid_argument_witness:
  "new_native sim_pdfium pdfium_tables 2 2 4 False None (Some 7) sim_world
      = (Inl AssertionError, sim_world)
   \<and> new_native sim_pdfium pdfium_tables 2 2 4 False (Some (PyBuffer 0)) None
        (sim_world\<lparr>heap := [[0, 0, 0]]\<rparr>)
      = (Inl AssertionError, sim_world\<lparr>heap := [[0, 0, 0]]\<rparr>)"
  using new_native_invalid_argument [of pdfium_tables 4 4 7 2 sim_pdfium 2 False None
      sim_world "PyBuffer 0" None]
    new_native_invalid_argument [of pdfium_tables 4 4 7 2 sim_pdfium 2 False None
      "sim_world\<lparr>heap := [[0, 0, 0]]\<rparr>" "PyBuffer 0" None]
  by (simp add: pdfium_tables_def buffer_len_def sim_world_def)

lemma new_native_packed:
  assumes "BitmapTypeToNChannels I format = Some bpc"
    and "0 \<le> width * bpc * height"
  shows "new_native C I width height format rv None None s =
     (let buffer = PyBuffer (length (heap s));
          s1 = s\<lparr>heap := heap s @ [replicate (nat (width * bpc * height)) 0]\<rparr>;
          (raw, l) = CreateEx C (native s) width height format (Some buffer) (width * bpc);
          s2 = s1\<lparr>native := l,
                  calls := calls s @ [Call_CreateEx width height format (Some buffer) (width * bpc)]\<rparr>
      in from_raw C I raw rv (Some buffer) s2)"
  using assms
  by (simp add: new_native_def subscript_def py_return_def py_bind_apply ctypes_array_def
      FPDFBitmap_CreateEx_def Let_def split: prod.splits)


lemma py_bind_Inr:
  "py_bind m f s = (Inr y, s') \<Longrightarrow> \<exists>x s1. m s = (Inr x, s1) \<and> f x s1 = (Inr y, s')"
  by (auto simp: py_bind_def split: prod.splits sum.splits)

lemma new_native_result:
  assumes "new_native C I width height format rv buffer stride s = (Inr bm, s')"
  shows "\<not> bm_needs_free bm \<and> (\<forall>b. buffer = Some b \<longrightarrow> bm_buffer bm = b)"
proof -
  from assms obtain bpc s1 where 1: "py_bind (case stride of
                None \<Rightarrow> py_return (width * bpc)
              | Some stride \<Rightarrow>
                  if stride \<ge> width * bpc then py_return stride else py_raise AssertionError)
       (\<lambda>stride.
     py_bind (case buffer of
                None \<Rightarrow> ctypes_array (stride * height)
              | Some buffer \<Rightarrow> (\<lambda>s.
                  if buffer_len s buffer \<ge> stride * height then py_return buffer s
                  else py_raise AssertionError s))
       (\<lambda>buffer.
     py_bind (FPDFBitmap_CreateEx C width height format (Some buffer) stride) (\<lambda>raw.
     from_raw C I raw rv (Some buffer)))) s1 = (Inr bm, s')"
    unfolding new_native_def by (blast dest: py_bind_Inr)
  from py_bind_Inr [OF 1] obtain st s2 where 2: "py_bind (case buffer of
                None \<Rightarrow> ctypes_array (st * height)
              | Some buffer \<Rightarrow> (\<lambda>s.
                  if buffer_len s buffer \<ge> st * height then py_return buffer s
                  else py_raise AssertionError s))
       (\<lambda>buffer.
     py_bind (FPDFBitmap_CreateEx C width height format (Some buffer) st) (\<lambda>raw.
     from_raw C I raw rv (Some buffer))) s2 = (Inr bm, s')"
    by blast
  from py_bind_Inr [OF 2] obtain buf s3 where
    buf: "(case buffer of None \<Rightarrow> ctypes_array (st * height)
          | Some buffer \<Rightarrow> (\<lambda>s. if buffer_len s buffer \<ge> st * height
              then py_return buffer s else py_raise AssertionError s)) s2 = (Inr buf, s3)"
    and 3: "py_bind (FPDFBitmap_CreateEx C width height format (Some buf) st) (\<lambda>raw.
     from_raw C I raw rv (Some buf)) s3 = (Inr bm, s')"
    by blast
  from py_bind_Inr [OF 3] obtain raw s4 where
    fr: "from_raw C I raw rv (Some buf) s4 = (Inr bm, s')"
    by blast
  from fr have nf: "\<not> bm_needs_free bm" and b: "bm_buffer bm = buf"
    by (auto simp: from_raw_ex_buffer dest: PdfBitmap_init_result)
  from buf have "\<forall>b. buffer = Some b \<longrightarrow> buf = b"
    by (auto simp: py_return_def py_raise_def split: if_splits)
  with nf b show ?thesis by simp
qed

lemma new_foreign_result:
  assumes "new_foreign C I width height format rv force_packed s = (Inr bm, s')"
  shows "bm_needs_free bm"
proof -
  from assms obtain raw s1 where "from_raw C I raw rv None s1 = (Inr bm, s')"
    unfolding new_foreign_def by (blast dest!: py_bind_Inr)
  then show ?thesis by (simp add: from_raw_needs_free)
qed

lemma new_foreign_simple_result:
  assumes "new_foreign_simple C I width height use_alpha rv s = (Inr bm, s')"
  shows "bm_needs_free bm"
proof -
  from assms obtain raw s1 where "from_raw C I raw rv None s1 = (Inr bm, s')"
    unfolding new_foreign_simple_def by (blast dest!: py_bind_Inr)
  then show ?thesis by (simp add: from_raw_needs_free)
qed

lemma close_foreign:
  "bm_needs_free bm \<Longrightarrow> close C bm s =
     (Inr (), s\<lparr>native := Destroy C (native s) (bm_raw bm),
                calls := calls s @ [Call_Destroy (bm_raw bm)]\<rparr>)"
  by (simp add: close_def FPDFBitmap_Destroy_def)

lemma close_native: "\<not> bm_needs_free bm \<Longrightarrow> close C bm s = (Inr (), s)"
  by (simp add: close_def py_return_def)

text \<open>
  Claim C1. A bitmap that \<open>from_raw\<close> returns needs freeing exactly when no external buffer
  was passed. Hence a bitmap of \<open>new_native\<close> does not need freeing, and its buffer is the
  caller's when one was given; a bitmap of \<open>new_foreign\<close> or \<open>new_foreign_simple\<close> does.
  Closing a bitmap that needs freeing runs \<open>FPDFBitmap_Destroy\<close> on its handle, which is how
  the library releases the buffer it owns; closing one that does not leaves the world, the
  Python heap included, as it is and makes no native call.
\<close>

theorem bitmap_ownership:
  "(from_raw C I raw rv ex_buffer s = (Inr bm, s') \<longrightarrow> bm_needs_free bm = (ex_buffer = None))
   \<and> (new_native C I width height format rv buffer stride s = (Inr bm, s') \<longrightarrow>
        \<not> bm_needs_free bm \<and> (\<forall>b. buffer = Some b \<longrightarrow> bm_buffer bm = b))
   \<and> (new_foreign C I width height format rv force_packed s = (Inr bm, s') \<longrightarrow>
        bm_needs_free bm)
   \<and> (new_foreign_simple C I width height use_alpha rv s = (Inr bm, s') \<longrightarrow> bm_needs_free bm)
   \<and> (bm_needs_free bm \<longrightarrow>
        close C bm t = (Inr (), t\<lparr>native := Destroy C (native t) (bm_raw bm),
                                   calls := calls t @ [Call_Destroy (bm_raw bm)]\<rparr>))
   \<and> (\<not> bm_needs_free bm \<longrightarrow> close C bm t = (Inr (), t))"
  using from_raw_needs_free new_native_result new_foreign_result new_foreign_simple_result
    close_foreign close_native
  by metis

text \<open>
  Claim C4. \<open>new_native\<close> without stride and buffer, for a format of the tables and a size
  that is not negative, allocates a new buffer object of \<open>width * channels * height\<close> zero
  bytes and hands it to the library with the stride \<open>width * channels\<close>. The attributes of
  the bitmap are read back from the library; when the library answers the format and the
  stride it was created with, the call returns a bitmap with that stride and that buffer.
\<close>

theorem new_native_packed_fresh:
  assumes "BitmapTypeToNChannels I format = Some bpc"
    and "(if rv then BitmapTypeToStrReverse I else BitmapTypeToStr I) format = Some m"
    and "0 \<le> width * bpc * height"
    and "CreateEx C (native s) width height format (Some (PyBuffer (length (heap s))))
           (width * bpc) = (raw, l)"
    and "GetFormat C l raw = format"
    and "GetStride C l raw = width * bpc"
  shows "\<exists>bm s'. new_native C I width height format rv None None s = (Inr bm, s')
      \<and> bm_stride bm = width * bpc
      \<and> bm_buffer bm = PyBuffer (length (heap s))
      \<and> heap s' = heap s @ [replicate (nat (bm_stride bm * height)) 0]
      \<and> buffer_len s' (bm_buffer bm) = bm_stride bm * height"
  using assms
  by (simp add: new_native_packed from_raw_ex_buffer PdfBitmap_init_def subscript_def
      py_return_def py_bind_apply buffer_len_def Let_def)


lemmas wrapper_defs =
  new_native_def new_foreign_def new_foreign_simple_def from_raw_def PdfBitmap_init_def
  subscript_def ctypes_array_def ctypes_cast_contents_def buffer_len_def close_def
  py_bind_apply py_return_def py_raise_def native_call_defs

lemmas sim_defs =
  sim_pdfium_def sim_world_def sim_lookup_def sim_create_def pdfium_tables_def

theorem new_native_packed_fresh_witness:
  "\<exists>bm s'. new_native sim_pdfium pdfium_tables 2 2 4 False None None sim_world = (Inr bm, s')
      \<and> bm_stride bm = 2 * 4
      \<and> bm_buffer bm = PyBuffer (length (heap sim_world))
      \<and> heap s' = heap sim_world @ [replicate (nat (bm_stride bm * 2)) 0]
      \<and> buffer_len s' (bm_buffer bm) = bm_stride bm * 2"
proof -
  have 1: "BitmapTypeToNChannels pdfium_tables 4 = Some 4"
    by (simp add: pdfium_tables_def)
  have 2: "(if False then BitmapTypeToStrReverse pdfium_tables
            else BitmapTypeToStr pdfium_tables) 4 = Some ''BGRA''"
    by (simp add: pdfium_tables_def)
  have 3: "(0::int) \<le> 2 * 4 * 2" by simp
  have 4: "CreateEx sim_pdfium (native sim_world) 2 2 4
      (Some (PyBuffer (length (heap sim_world)))) (2 * 4) =
      (1, [\<lparr>sb_width = 2, sb_height = 2, sb_format = 4, sb_stride = 8, sb_buffer = 4096\<rparr>])"
    by (simp add: sim_defs)
  have 5: "GetFormat sim_pdfium
      [\<lparr>sb_width = 2, sb_height = 2, sb_format = 4, sb_stride = 8, sb_buffer = 4096\<rparr>] 1 = 4"
    by (simp add: sim_defs)
  have 6: "GetStride sim_pdfium
      [\<lparr>sb_width = 2, sb_height = 2, sb_format = 4, sb_stride = 8, sb_buffer = 4096\<rparr>] 1
      = 2 * 4"
    by (simp add: sim_defs)
  show ?thesis by (rule new_native_packed_fresh [OF 1 2 3 4 5 6])
qed

theorem bitmap_ownership_witness:
  "map_sum id bm_needs_free
     (fst (new_native sim_pdfium pdfium_tables 2 2 4 False None None sim_world)) = Inr False
   \<and> map_sum id bm_needs_free
     (fst (new_foreign sim_pdfium pdfium_tables 2 2 4 False False sim_world)) = Inr True
   \<and> map_sum id bm_needs_free
     (fst (new_foreign_simple sim_pdfium pdfium_tables 2 2 True False sim_world)) = Inr True
   \<and> map_sum id bm_needs_free
     (fst (from_raw sim_pdfium pdfium_tables 1 False (Some (PyBuffer 0))
        (sim_world\<lparr>native :=
           [\<lparr>sb_width = 2, sb_height = 2, sb_format = 4, sb_stride = 8, sb_buffer = 4096\<rparr>]\<rparr>)))
     = Inr False
   \<and> calls (snd (py_bind (new_native sim_pdfium pdfium_tables 2 2 4 False None None)
        (close sim_pdfium) sim_world))
      = [Call_CreateEx 2 2 4 (Some (PyBuffer 0)) 8, Call_GetWidth 1, Call_GetHeight 1,
         Call_GetFormat 1, Call_GetStride 1]
   \<and> calls (snd (py_bind (new_foreign sim_pdfium pdfium_tables 2 2 4 False False)
        (close sim_pdfium) sim_world))
      = [Call_CreateEx 2 2 4 None 0, Call_GetWidth 1, Call_GetHeight 1, Call_GetFormat 1,
         Call_GetStride 1, Call_GetBuffer 1, Call_Destroy 1]"
proof -
  have 5: "calls (snd (py_bind (new_native sim_pdfium pdfium_tables 2 2 4 False None None)
        (close sim_pdfium) sim_world))
      = [Call_CreateEx 2 2 4 (Some (PyBuffer 0)) 8, Call_GetWidth 1, Call_GetHeight 1,
         Call_GetFormat 1, Call_GetStride 1]"
    by (simp add: wrapper_defs sim_defs)
  have 6: "calls (snd (py_bind (new_foreign sim_pdfium pdfium_tables 2 2 4 False False)
        (close sim_pdfium) sim_world))
      = [Call_CreateEx 2 2 4 None 0, Call_GetWidth 1, Call_GetHeight 1, Call_GetFormat 1,
         Call_GetStride 1, Call_GetBuffer 1, Call_Destroy 1]"
    by (simp add: wrapper_defs sim_defs)
  obtain bm1 s1 where 1:
    "new_native sim_pdfium pdfium_tables 2 2 4 False None None sim_world = (Inr bm1, s1)"
    by (simp add: wrapper_defs sim_defs)
  obtain bm2 s2 where 2:
    "new_foreign sim_pdfium pdfium_tables 2 2 4 False False sim_world = (Inr bm2, s2)"
    by (simp add: wrapper_defs sim_defs)
  obtain bm3 s3 where 3:
    "new_foreign_simple sim_pdfium pdfium_tables 2 2 True False sim_world = (Inr bm3, s3)"
    by (simp add: wrapper_defs sim_defs)
  obtain bm4 s4 where 4:
    "from_raw sim_pdfium pdfium_tables 1 False (Some (PyBuffer 0))
        (sim_world\<lparr>native :=
           [\<lparr>sb_width = 2, sb_height = 2, sb_format = 4, sb_stride = 8, sb_buffer = 4096\<rparr>]\<rparr>)
     = (Inr bm4, s4)"
    by (simp add: wrapper_defs sim_defs)
  from 1 bitmap_ownership [where bm = bm1] have "\<not> bm_needs_free bm1" by blast
  moreover from 2 bitmap_ownership [where bm = bm2] have "bm_needs_free bm2" by blast
  moreover from 3 bitmap_ownership [where bm = bm3] have "bm_needs_free bm3" by blast
  moreover from 4 bitmap_ownership [where bm = bm4 and ex_buffer = "Some (PyBuffer 0)"]
  have "\<not> bm_needs_free bm4" by blast
  ultimately show ?thesis unfolding 5 6 unfolding 1 2 3 4 by simp
qed

section \<open>Properties of \<open>from_pil\<close> and of the position converter\<close>

text \<open>
  Claim C3. \<open>get_posconv\<close>, called with a page object, raises the \<open>RuntimeError\<close> when the
  bitmap recorded no render parameters, when the page recorded at render time is no longer
  alive, and when it is another page than the one passed in; otherwise it returns the
  \<open>PdfPosConv\<close> of that page and the recorded canvas arguments. The world it returns is the one
  it was given: no native call is made on any path.
\<close>

theorem get_posconv_checks_page:
  "(bm_pos_args bm = None \<longrightarrow> get_posconv bm (Some page) s = (Inl not_this_page, s))
   \<and> (bm_pos_args bm = Some (wr, args) \<and> wr \<notin> live s \<longrightarrow>
        get_posconv bm (Some page) s = (Inl not_this_page, s))
   \<and> (bm_pos_args bm = Some (wr, args) \<and> wr \<in> live s \<and> wr \<noteq> page \<longrightarrow>
        get_posconv bm (Some page) s = (Inl not_this_page, s))
   \<and> (bm_pos_args bm = Some (wr, args) \<and> wr \<in> live s \<and> wr = page \<longrightarrow>
        get_posconv bm (Some page) s = (Inr \<lparr>pc_page = page, pc_pos_args = args\<rparr>, s))"
  by (auto simp: get_posconv_def weakref_call_def PdfPosConv_init_def py_raise_def py_return_def
      not_this_page_def)

theorem get_posconv_checks_page_witness:
  "get_posconv ((rendered 7)\<lparr>bm_pos_args := None\<rparr>) (Some 7) (sim_world\<lparr>live := {7}\<rparr>)
      = (Inl not_this_page, sim_world\<lparr>live := {7}\<rparr>)
   \<and> get_posconv (rendered 7) (Some 8) (sim_world\<lparr>live := {8}\<rparr>)
      = (Inl not_this_page, sim_world\<lparr>live := {8}\<rparr>)
   \<and> get_posconv (rendered 7) (Some 8) (sim_world\<lparr>live := {7, 8}\<rparr>)
      = (Inl not_this_page, sim_world\<lparr>live := {7, 8}\<rparr>)
   \<and> get_posconv (rendered 7) (Some 7) (sim_world\<lparr>live := {7, 8}\<rparr>)
      = (Inr \<lparr>pc_page = 7, pc_pos_args = (0, 0, 2, 2, 0)\<rparr>, sim_world\<lparr>live := {7, 8}\<rparr>)"
  using get_posconv_checks_page [of "(rendered 7)\<lparr>bm_pos_args := None\<rparr>" 7
      "sim_world\<lparr>live := {7}\<rparr>" 7 "(0, 0, 2, 2, 0)"]
    get_posconv_checks_page [of "rendered 7" 8 "sim_world\<lparr>live := {8}\<rparr>" 7 "(0, 0, 2, 2, 0)"]
    get_posconv_checks_page [of "rendered 7" 8 "sim_world\<lparr>live := {7, 8}\<rparr>" 7 "(0, 0, 2, 2, 0)"]
    get_posconv_checks_page [of "rendered 7" 7 "sim_world\<lparr>live := {7, 8}\<rparr>" 7 "(0, 0, 2, 2, 0)"]
  by (simp add: rendered_def sim_world_def)

text \<open>
  Claim C5. \<open>to_page\<close> makes the one call \<open>FPDF_DeviceToPage\<close> with the page, the canvas
  arguments and the bitmap coordinates; it raises \<open>PdfiumError\<close> exactly when the library
  answers 0 and returns the coordinates the library wrote otherwise. \<open>to_bitmap\<close> does the
  same with \<open>FPDF_PageToDevice\<close>, and what it returns are the integers held by the two
  \<open>c_int\<close> the library wrote.
\<close>

theorem posconv_delegates:
  "(DeviceToPage C (native s) (pc_page conv) (pc_pos_args conv) bitmap_x bitmap_y = (ok, x, y)
      \<longrightarrow> to_page C conv bitmap_x bitmap_y s =
        (if ok = 0 then Inl (PdfiumError ''Failed to translate to page coordinates.'')
         else Inr (x, y),
         s\<lparr>calls := calls s @
            [Call_DeviceToPage (pc_page conv) (pc_pos_args conv) bitmap_x bitmap_y]\<rparr>))
   \<and> (PageToDevice C (native s) (pc_page conv) (pc_pos_args conv) page_x page_y = (ok', u, v)
      \<longrightarrow> to_bitmap C conv page_x page_y s =
        (if ok' = 0 then Inl (PdfiumError ''Failed to translate to bitmap coordinates.'')
         else Inr (sint u, sint v),
         s\<lparr>calls := calls s @
            [Call_PageToDevice (pc_page conv) (pc_pos_args conv) page_x page_y]\<rparr>))"
  by (simp add: to_page_def to_bitmap_def py_bind_apply FPDF_DeviceToPage_def
      FPDF_PageToDevice_def py_raise_def py_return_def)

theorem posconv_delegates_witness:
  "to_page sim_pdfium \<lparr>pc_page = 7, pc_pos_args = (1, 1, 2, 2, 0)\<rparr> 3 4 sim_world
     = (Inr (2, 3), sim_world\<lparr>calls := [Call_DeviceToPage 7 (1, 1, 2, 2, 0) 3 4]\<rparr>)
   \<and> to_page sim_pdfium \<lparr>pc_page = 7, pc_pos_args = (1, 1, 0, 2, 0)\<rparr> 3 4 sim_world
     = (Inl (PdfiumError ''Failed to translate to page coordinates.''),
        sim_world\<lparr>calls := [Call_DeviceToPage 7 (1, 1, 0, 2, 0) 3 4]\<rparr>)
   \<and> to_bitmap sim_pdfium \<lparr>pc_page = 7, pc_pos_args = (1, 1, 2, 2, 0)\<rparr> 2 3 sim_world
     = (Inr (3, 4), sim_world\<lparr>calls := [Call_PageToDevice 7 (1, 1, 2, 2, 0) 2 3]\<rparr>)
   \<and> to_bitmap sim_pdfium \<lparr>pc_page = 7, pc_pos_args = (1, 1, 0, 2, 0)\<rparr> 2 3 sim_world
     = (Inl (PdfiumError ''Failed to translate to bitmap coordinates.''),
        sim_world\<lparr>calls := [Call_PageToDevice 7 (1, 1, 0, 2, 0) 2 3]\<rparr>)"
  using posconv_delegates [of sim_pdfium sim_world "\<lparr>pc_page = 7, pc_pos_args = (1, 1, 2, 2, 0)\<rparr>"
      3 4 1 2 3 2 3 1 3 4]
    posconv_delegates [of sim_pdfium sim_world "\<lparr>pc_page = 7, pc_pos_args = (1, 1, 0, 2, 0)\<rparr>"
      3 4 0 0 0 2 3 0 0 0]
  by (simp add: sim_pdfium_def sim_world_def)


lemma new_native_given_buffer:
  assumes "new_native C I width height format rv (Some b) stride s = (Inr bm, s')"
  shows "heap s' = heap s \<and> bm_buffer bm = b \<and> \<not> bm_needs_free bm"
proof -
  from assms obtain bpc where bpc: "BitmapTypeToNChannels I format = Some bpc"
    by (auto simp: new_native_def subscript_def py_raise_def py_bind_apply split: option.splits)
  define st where "st = (case stride of None \<Rightarrow> width * bpc | Some x \<Rightarrow> x)"
  from assms bpc obtain raw l where
    cr: "CreateEx C (native s) width height format (Some b) st = (raw, l)"
    and fr: "from_raw C I raw rv (Some b)
      (s\<lparr>native := l, calls := calls s @ [Call_CreateEx width height format (Some b) st]\<rparr>)
      = (Inr bm, s')"
    by (cases stride)
       (auto simp: new_native_def subscript_def py_raise_def py_return_def py_bind_apply
         FPDFBitmap_CreateEx_def st_def split: if_splits prod.splits)
  from fr show ?thesis
    by (auto simp: from_raw_ex_buffer dest!: PdfBitmap_init_result)
qed

text \<open>
  Claim C8, amended. Whenever \<open>from_pil\<close> returns a bitmap, its buffer is a bytes object that
  did not exist before the call and holds the interleaved pixels of the (converted) image;
  the bitmap does not need freeing, so the buffer belongs to the wrapper and closing the
  bitmap neither calls the library nor touches the heap.
\<close>

theorem from_pil_copy_wrapper_owned:
  assumes "from_pil C I convert pil_image s = (Inr bm, s')"
  shows "\<exists>im format. from_pil_format I convert pil_image = Inr (im, format)
      \<and> bm_buffer bm = PyBuffer (length (heap s))
      \<and> heap s' = heap s @ [concat (transpose (im_bands im))]
      \<and> \<not> bm_needs_free bm
      \<and> close C bm s' = (Inr (), s')"
proof -
  from assms obtain im format where
    fmt: "from_pil_format I convert pil_image = Inr (im, format)"
    by (auto simp: from_pil_def py_raise_def split: sum.splits)
  obtain w h where sz: "im_size im = (w, h)" by (cases "im_size im")
  from assms fmt sz have
    "new_native C I w h format False (Some (PyBuffer (length (heap s)))) None
       (s\<lparr>heap := heap s @ [concat (transpose (im_bands im))]\<rparr>) = (Inr bm, s')"
    by (simp add: from_pil_def py_bind_apply tobytes_def)
  from new_native_given_buffer [OF this] fmt show ?thesis
    by (simp add: close_native)
qed

theorem from_pil_copy_wrapper_owned_witness:
  "\<exists>im format. from_pil_format pdfium_tables no_convert rgb_image = Inr (im, format)
      \<and> heap (snd (from_pil sim_pdfium pdfium_tables no_convert rgb_image sim_world))
          = heap sim_world @ [concat (transpose (im_bands im))]"
proof -
  obtain bm s' where 1:
    "from_pil sim_pdfium pdfium_tables no_convert rgb_image sim_world = (Inr bm, s')"
    by (simp add: from_pil_def from_pil_format_def pil_convert_for_pdfium_def merge_def
        tobytes_def rgb_image_def wrapper_defs sim_defs)
  from from_pil_copy_wrapper_owned [OF 1] show ?thesis unfolding 1 by auto
qed

text \<open>
  Claim C8 as stated fails: for a two-pixel RGB image the bitmap of \<open>from_pil\<close> does not need
  freeing, and creating and then closing it never calls \<open>FPDFBitmap_Destroy\<close>.
\<close>

theorem from_pil_not_library_owned:
  "map_sum id bm_needs_free
     (fst (from_pil sim_pdfium pdfium_tables no_convert rgb_image sim_world)) = Inr False
   \<and> calls (snd (py_bind (from_pil sim_pdfium pdfium_tables no_convert rgb_image)
        (close sim_pdfium) sim_world))
      = [Call_CreateEx 2 1 2 (Some (PyBuffer 0)) 6, Call_GetWidth 1, Call_GetHeight 1,
         Call_GetFormat 1, Call_GetStride 1]"
  by (simp add: from_pil_def from_pil_format_def pil_convert_for_pdfium_def merge_def
      tobytes_def rgb_image_def wrapper_defs sim_defs)

section \<open>The version records after construction\<close>

lemmas version_defs =
  version_interface_init_def hook_def hook_pypdfium2_def hook_pdfium_def craft_tag_def
  craft_desc_def TAG_FIELDS_def iadd_str_def setattr_def getattr_def bind_sum_def
  py_iter_def str_join_def gt_zero_def py_str_def str_int_def dec_nat.simps dec_char_def

lemma init_stores_frozen_setattr:
  "version_interface_init cls data = Inr info \<Longrightarrow>
     inst_dict info ''__setattr__'' = Some (PyFunction ''frozen_setattr'')"
  by (auto simp: version_interface_init_def bind_sum_def setattr_def Let_def
      split: sum.splits pyval.splits)

lemma assignment_after_init:
  "version_interface_init cls data = Inr info \<Longrightarrow>
     setattr info name v = Inr (info\<lparr>inst_dict := (inst_dict info)(name \<mapsto> v)\<rparr>)"
  by (simp add: setattr_def)

text \<open>
  Claim C7 does not hold of the code. After construction, both version records hold the
  function \<open>frozen_setattr\<close> under the name \<open>__setattr__\<close> in their own dictionary, where
  attribute assignment never looks: assigning to \<open>major\<close> of the one record and to \<open>build\<close> of
  the other raises nothing and changes the field.
\<close>

theorem version_records_assignable:
  "bind_sum PYPDFIUM_INFO (\<lambda>info. getattr info ''major'') = Inr (PyInt 4)
   \<and> bind_sum PYPDFIUM_INFO (\<lambda>info. getattr info ''__setattr__'')
       = Inr (PyFunction ''frozen_setattr'')
   \<and> bind_sum (bind_sum PYPDFIUM_INFO (\<lambda>info. setattr info ''major'' (PyInt 99)))
        (\<lambda>info. getattr info ''major'') = Inr (PyInt 99)
   \<and> bind_sum PDFIUM_INFO (\<lambda>info. getattr info ''build'') = Inr (PyInt 6517)
   \<and> bind_sum PDFIUM_INFO (\<lambda>info. getattr info ''__setattr__'')
       = Inr (PyFunction ''frozen_setattr'')
   \<and> bind_sum (bind_sum PDFIUM_INFO (\<lambda>info. setattr info ''build'' (PyInt 1)))
        (\<lambda>info. getattr info ''build'') = Inr (PyInt 1)"
  by (simp add: PYPDFIUM_INFO_def PDFIUM_INFO_def pypdfium2_json_def pdfium_json_def
      version_defs)

end
